theory Spec2Isabelle
  imports Complex_Main "HOL-Library.Sublist" "HOL-Library.AList"
begin

section \<open>The scraping client \<open>Auto24API\<close> (\<open>auto24_api/auto24_api.py\<close>)\<close>

text \<open>
  The client is one Python class. Its methods mutate the object (\<open>self._headers\<close>,
  \<open>self._session\<close>) and the outside world (network, two files, standard output, the
  clock, two random sources). The embedding passes both explicitly: a method takes the
  object \<open>self\<close> and the world and returns its result together with the new object and
  the new world. An exception is the \<open>Inl\<close> of a sum.
\<close>

subsection \<open>Exceptions\<close>

text \<open>
  The three exceptions of the package (\<open>auto24_api.utils.exceptions\<close>) and the builtin
  ones that the code of the class can let escape. \<open>InvalidArgsException\<close> carries the
  message it is raised with, \<open>KeyError\<close> and \<open>AttributeError\<close> the name that was missing.
\<close>

datatype error =
    InvalidArgsException string
  | ReCaptchaRequiredException
  | DataNotFoundException
  | JSONDecodeError
  | KeyError string
  | TypeError
  | ValueError
  | RecursionError
  | AttributeError string

subsection \<open>Data\<close>

type_synonym headers = "(string \<times> string) list"
type_synonym proxies = "(string \<times> string) list option"

text \<open>The state of a \<open>requests.Session\<close> that is pickled: its cookie jar.\<close>

type_synonym session = "(string \<times> string) list"

text \<open>
  A \<open>requests.Response\<close>: the raw body \<open>.content\<close> and the decoded body \<open>.text\<close>
  (\<open>res_text\<close>, \<open>text\<close> being a keyword).
\<close>

record response =
  content :: string
  res_text :: string

text \<open>
  A parsed HTML document is the list of its elements in document order. Of an element
  the code reads the name, the attributes, \<open>.string\<close> (matched by \<open>find(string=...)\<close>)
  and \<open>.text\<close>.
\<close>

record tag =
  name :: string
  attrs :: "(string \<times> string) list"
  tag_string :: "string option"
  tag_text :: string

type_synonym soup = "tag list"

text \<open>
  The world. The libraries the class calls are not part of the repository; what they
  return is a field of the world:
  \<^item> \<open>http w k url h p s\<close> is what \<open>session.get(url, headers=h, proxies=p)\<close> returns as
    the \<open>k\<close>-th request of the run on a session in state \<open>s\<close>: the response and the
    new state of the session; \<open>sent\<close> is the log of the URLs requested so far and
    \<open>received\<close> the log of the responses to them;
  \<^item> \<open>html_parser\<close> is \<open>BeautifulSoup(_, "html.parser")\<close>;
  \<^item> \<open>new_session\<close> is the constructor call \<open>requests.Session(headers=_, proxies=_)\<close>,
    \<open>None\<close> when the library rejects the call (a \<open>TypeError\<close>, its constructor
    declaring no such parameters);
  \<^item> \<open>fake_headers w k\<close> is the \<open>k\<close>-th result of \<open>Headers(...).generate()\<close>, and
    \<open>headers_generated\<close> counts the calls;
  \<^item> \<open>random w k\<close> is the \<open>k\<close>-th result of \<open>random.random()\<close>, \<open>random_drawn\<close> counts
    the draws; floats are modelled as reals;
  \<^item> \<open>pickled\<close> is the log of the sessions dumped, each with the path of its file (a
    file holds the last dump to its path); \<open>out_html\<close> is the log of the texts written
    to \<open>out.html\<close> (opened with mode \<open>"w"\<close>, the file holds the last one);
  \<^item> \<open>slept\<close> is the log of the durations passed to \<open>time.sleep\<close>, \<open>stdout\<close> the
    lines printed.
\<close>

record world =
  http :: "nat \<Rightarrow> string \<Rightarrow> headers \<Rightarrow> proxies \<Rightarrow> session \<Rightarrow> response \<times> session"
  sent :: "string list"
  received :: "response list"
  html_parser :: "string \<Rightarrow> soup"
  new_session :: "headers \<Rightarrow> proxies \<Rightarrow> session option"
  fake_headers :: "nat \<Rightarrow> headers"
  headers_generated :: nat
  random :: "nat \<Rightarrow> real"
  random_drawn :: nat
  pickled :: "(string \<times> session) list"
  out_html :: "string list"
  slept :: "real list"
  stdout :: "string list"

text \<open>The attributes of an \<open>Auto24API\<close> object (\<open>self._use_session\<close>, ...).\<close>

record api =
  use_session :: bool
  bypass_captcha :: bool
  headers :: headers
  proxies :: proxies
  lang :: string
  wait_range :: "real list"
  max_retries :: int
  tmp_dir :: string
  session :: session

subsection \<open>Paths and the session file\<close>

text \<open>\<open>os.path.join\<close> (POSIX) of a path and a relative component.\<close>

definition path_join :: "string \<Rightarrow> string \<Rightarrow> string" where
  "path_join a b = (if a = [] \<or> last a = CHR ''/'' then a @ b else a @ ''/'' @ b)"

definition SESSION_FILENAME :: string where
  "SESSION_FILENAME = ''session.pkl''"

definition tmp_path :: "string \<Rightarrow> string" where
  "tmp_path dir = path_join (path_join dir ''.auto24api'') ''tmp''"

definition session_file_path :: "string \<Rightarrow> string" where
  "session_file_path dir = path_join (tmp_path dir) SESSION_FILENAME"

text \<open>The content of the file at a path: the last session dumped there, if any.\<close>

definition read_pickle :: "world \<Rightarrow> string \<Rightarrow> session option" where
  "read_pickle w p = map_of (rev (pickled w)) p"

text \<open>\<open>_get_headers\<close>: a freshly generated set of headers.\<close>

definition get_headers :: "world \<Rightarrow> headers \<times> world" where
  "get_headers w =
     (fake_headers w (headers_generated w),
      w\<lparr>headers_generated := Suc (headers_generated w)\<rparr>)"

text \<open>
  \<open>_load_session\<close>, on the attributes it reads: the pickled session when sessions are
  used and the file exists, a new session otherwise.
\<close>

definition load_session :: "bool \<Rightarrow> string \<Rightarrow> headers \<Rightarrow> proxies \<Rightarrow> world \<Rightarrow> error + session" where
  "load_session use dir h p w =
     (case (if use then read_pickle w (session_file_path dir) else None) of
        Some s \<Rightarrow> Inr s
      | None \<Rightarrow> (case new_session w h p of None \<Rightarrow> Inl TypeError | Some s \<Rightarrow> Inr s))"

text \<open>\<open>_save_session\<close>: dump the session to its file (creating the directory).\<close>

definition save_session :: "api \<Rightarrow> world \<Rightarrow> world" where
  "save_session self w =
     w\<lparr>pickled := pickled w @ [(session_file_path (tmp_dir self), session self)]\<rparr>"

subsection \<open>The HTML document\<close>

text \<open>
  \<open>soup.find(name, attrs=...)\<close> and \<open>soup.find(name, string=...)\<close>: the first element
  with the name whose attributes (whose \<open>.string\<close>) match, \<open>None\<close> when there is none.
  An element found is truthy.
\<close>

definition find_attrs :: "soup \<Rightarrow> string \<Rightarrow> (string \<times> string) list \<Rightarrow> tag option" where
  "find_attrs sp n as =
     List.find (\<lambda>t. name t = n \<and> list_all (\<lambda>(k, v). map_of (attrs t) k = Some v) as) sp"

definition find_string :: "soup \<Rightarrow> string \<Rightarrow> string \<Rightarrow> tag option" where
  "find_string sp n str = List.find (\<lambda>t. name t = n \<and> tag_string t = Some str) sp"

subsection \<open>Strings\<close>

text \<open>
  \<open>str.replace(old, new)\<close>: every occurrence of \<open>old\<close>, found from the left and not
  overlapping, becomes \<open>new\<close>. (An empty \<open>old\<close> matches before every character and at
  the end.)
\<close>

function replace :: "string \<Rightarrow> string \<Rightarrow> string \<Rightarrow> string" where
  "replace old new [] = (if old = [] then new else [])"
| "replace old new (c # cs) =
     (if old = [] then new @ c # replace old new cs
      else if prefix old (c # cs) then new @ replace old new (drop (length old) (c # cs))
      else c # replace old new cs)"
  by pat_completeness auto
termination
  by (relation "measure (\<lambda>(old, new, s). length s)") auto

text \<open>\<open>_parsejs_to_json\<close>: the three replacements, in the order of the source.\<close>

definition parsejs_to_json :: "string \<Rightarrow> string" where
  \<open>parsejs_to_json js =
     (let js1 = replace ''window.INITIAL_STATE = '' [] js;
          js2 = replace ''undefined'' ''null'' js1;
          js3 = replace ''};'' ''}'' js2
      in js3)\<close>

subsection \<open>JSON\<close>

text \<open>
  The values \<open>json.loads\<close> returns: \<open>None\<close>, \<open>bool\<close>, \<open>int\<close>, \<open>float\<close> (kept as the
  literal read: floating point is not interpreted), \<open>str\<close>, \<open>list\<close> and \<open>dict\<close> (the
  keys in the order of their first insertion).
\<close>

datatype json =
    JNull
  | JBool bool
  | JInt int
  | JFloat string
  | JStr string
  | JArr "json list"
  | JObj "(string \<times> json) list"

text \<open>
  \<open>v[k]\<close> with a string \<open>k\<close>: the value of the key in a \<open>dict\<close>, \<open>KeyError\<close> when the
  key is missing, \<open>TypeError\<close> on every other value (a \<open>list\<close> or a \<open>str\<close> wants an
  integer index, the others are not subscriptable).
\<close>

definition subscript :: "json \<Rightarrow> string \<Rightarrow> error + json" where
  "subscript v k =
     (case v of
        JObj kvs \<Rightarrow> (case map_of kvs k of None \<Rightarrow> Inl (KeyError k) | Some x \<Rightarrow> Inr x)
      | _ \<Rightarrow> Inl TypeError)"

text \<open>
  \<open>json.loads\<close> of the standard library, after \<open>json/decoder.py\<close> and
  \<open>json/scanner.py\<close>. A Python string is modelled by its UTF-8 bytes.
\<close>

definition is_ws :: "char \<Rightarrow> bool" where
  "is_ws c \<longleftrightarrow> c = CHR '' '' \<or> c = CHR 0x09 \<or> c = CHR 0x0A \<or> c = CHR 0x0D"

definition skip_ws :: "string \<Rightarrow> string" where
  "skip_ws s = dropWhile is_ws s"

definition is_digit :: "char \<Rightarrow> bool" where
  "is_digit c \<longleftrightarrow> (48::nat) \<le> of_char c \<and> of_char c \<le> (57::nat)"

definition hex_val :: "char \<Rightarrow> nat option" where
  "hex_val c =
     (let n = (of_char c :: nat) in
      if 48 \<le> n \<and> n \<le> 57 then Some (n - 48)
      else if 65 \<le> n \<and> n \<le> 70 then Some (n - 55)
      else if 97 \<le> n \<and> n \<le> 102 then Some (n - 87)
      else None)"

text \<open>The four hexadecimal digits of a \<open>\uXXXX\<close> escape.\<close>

definition decode_uXXXX :: "string \<Rightarrow> nat option" where
  "decode_uXXXX s =
     (case map hex_val (take 4 s) of
        [Some a, Some b, Some c, Some d] \<Rightarrow> Some (((a * 16 + b) * 16 + c) * 16 + d)
      | _ \<Rightarrow> None)"

text \<open>\<open>chr(n)\<close>, as the UTF-8 bytes of the code point.\<close>

definition chr_utf8 :: "nat \<Rightarrow> string" where
  "chr_utf8 n =
     (if n < 0x80 then [char_of n]
      else if n < 0x800 then [char_of (0xC0 + n div 64), char_of (0x80 + n mod 64)]
      else if n < 0x10000 then
        [char_of (0xE0 + n div 4096), char_of (0x80 + n div 64 mod 64), char_of (0x80 + n mod 64)]
      else
        [char_of (0xF0 + n div 262144), char_of (0x80 + n div 4096 mod 64),
         char_of (0x80 + n div 64 mod 64), char_of (0x80 + n mod 64)])"

text \<open>The escapes of one character (\<open>BACKSLASH\<close> in \<open>json/decoder.py\<close>).\<close>

definition BACKSLASH :: "char \<Rightarrow> char option" where
  \<open>BACKSLASH c =
     (if c = CHR ''"'' then Some (CHR ''"'')
      else if c = CHR 0x5C then Some (CHR 0x5C)
      else if c = CHR ''/'' then Some (CHR ''/'')
      else if c = CHR ''b'' then Some (CHR 0x08)
      else if c = CHR ''f'' then Some (CHR 0x0C)
      else if c = CHR ''n'' then Some (CHR 0x0A)
      else if c = CHR ''r'' then Some (CHR 0x0D)
      else if c = CHR ''t'' then Some (CHR 0x09)
      else None)\<close>

text \<open>
  \<open>scanstring\<close> (strict): the input after the opening quote; the string read and the
  input after the closing quote. A control character, an unknown escape and the end of
  the input are errors. A high surrogate followed by a low one is one code point.
\<close>

fun scanstring :: "string \<Rightarrow> (string \<times> string) option" where
  "scanstring [] = None"
| \<open>scanstring (c # s) =
     (if c = CHR ''"'' then Some ([], s)
      else if c = CHR 0x5C then
        (case s of
           [] \<Rightarrow> None
         | esc # r \<Rightarrow>
             if esc = CHR ''u'' then
               (case decode_uXXXX r of
                  None \<Rightarrow> None
                | Some uni \<Rightarrow>
                    if 0xD800 \<le> uni \<and> uni \<le> 0xDBFF \<and> prefix [CHR 0x5C, CHR ''u''] (drop 4 r) then
                      (case decode_uXXXX (drop 6 r) of
                         None \<Rightarrow> None
                       | Some uni2 \<Rightarrow>
                           if 0xDC00 \<le> uni2 \<and> uni2 \<le> 0xDFFF then
                             map_option
                               (apfst ((@) (chr_utf8 (0x10000 + ((uni - 0xD800) * 1024 + (uni2 - 0xDC00))))))
                               (scanstring (drop 10 r))
                           else map_option (apfst ((@) (chr_utf8 uni))) (scanstring (drop 4 r)))
                    else map_option (apfst ((@) (chr_utf8 uni))) (scanstring (drop 4 r)))
             else
               (case BACKSLASH esc of
                  None \<Rightarrow> None
                | Some ch \<Rightarrow> map_option (apfst ((#) ch)) (scanstring r)))
      else if (of_char c :: nat) < 0x20 then None
      else map_option (apfst ((#) c)) (scanstring s))\<close>

text \<open>
  \<open>NUMBER_RE\<close>: the integer part (\<open>-?(0|[1-9][0-9]*)\<close>), then the optional fraction
  (\<open>\.[0-9]+\<close>) and the optional exponent (\<open>[eE][-+]?[0-9]+\<close>).
\<close>

definition match_integer :: "string \<Rightarrow> (string \<times> string) option" where
  "match_integer s =
     (let (sign, r) = (case s of [] \<Rightarrow> ([], s) | c # r' \<Rightarrow> if c = CHR ''-'' then ([c], r') else ([], s))
      in case r of
           [] \<Rightarrow> None
         | d # r' \<Rightarrow>
             if d = CHR ''0'' then Some (sign @ [d], r')
             else if is_digit d then Some (sign @ d # takeWhile is_digit r', dropWhile is_digit r')
             else None)"

definition match_frac :: "string \<Rightarrow> string \<times> string" where
  "match_frac s =
     (case s of
        c # d # r \<Rightarrow>
          if c = CHR ''.'' \<and> is_digit d then (c # d # takeWhile is_digit r, dropWhile is_digit r)
          else ([], s)
      | _ \<Rightarrow> ([], s))"

definition match_exp :: "string \<Rightarrow> string \<times> string" where
  "match_exp s =
     (case s of
        [] \<Rightarrow> ([], s)
      | e # r \<Rightarrow>
          if e = CHR ''e'' \<or> e = CHR ''E'' then
            (let (sg, r1) = (case r of [] \<Rightarrow> ([], r)
                             | c # r' \<Rightarrow> if c = CHR ''-'' \<or> c = CHR ''+'' then ([c], r') else ([], r))
             in case r1 of
                  [] \<Rightarrow> ([], s)
                | d # _ \<Rightarrow>
                    if is_digit d then (e # sg @ takeWhile is_digit r1, dropWhile is_digit r1)
                    else ([], s))
          else ([], s))"

text \<open>
  \<open>int\<close> of a decimal literal with an optional sign. CPython refuses to convert a
  literal of more than \<open>sys.get_int_max_str_digits()\<close> digits (4300 unless it is
  reconfigured) and raises \<open>ValueError\<close>; the sign is not counted.
\<close>

definition INT_MAX_STR_DIGITS :: nat where
  "INT_MAX_STR_DIGITS = 4300"

definition digits_val :: "string \<Rightarrow> int" where
  "digits_val ds = foldl (\<lambda>acc c. 10 * acc + (int (of_char c) - 48)) 0 ds"

definition parse_int :: "string \<Rightarrow> error + int" where
  "parse_int s =
     (case s of
        [] \<Rightarrow> Inr 0
      | c # r \<Rightarrow>
          if c = CHR ''-'' then
            (if INT_MAX_STR_DIGITS < length r then Inl ValueError else Inr (- digits_val r))
          else (if INT_MAX_STR_DIGITS < length s then Inl ValueError else Inr (digits_val s)))"

text \<open>
  A number at the start of the input: \<open>None\<close> when \<open>NUMBER_RE\<close> does not match,
  otherwise the float (kept as its literal) or the integer with the rest of the input, or
  the \<open>ValueError\<close> of the conversion.
\<close>

definition match_number :: "string \<Rightarrow> (error + json \<times> string) option" where
  "match_number s =
     (case match_integer s of
        None \<Rightarrow> None
      | Some (integer, r) \<Rightarrow>
          (let (frac, r1) = match_frac r; (exp, r2) = match_exp r1
           in if frac \<noteq> [] \<or> exp \<noteq> [] then Some (Inr (JFloat (integer @ frac @ exp), r2))
              else (case parse_int integer of
                      Inl e \<Rightarrow> Some (Inl e)
                    | Inr i \<Rightarrow> Some (Inr (JInt i, r2)))))"

text \<open>\<open>dict(pairs)\<close>: a later pair with the same key replaces the value.\<close>

definition dict :: "(string \<times> json) list \<Rightarrow> (string \<times> json) list" where
  "dict pairs = foldl (\<lambda>d (k, v). AList.update k v d) [] pairs"

text \<open>
  The scanner. \<open>scan_once\<close> reads one value at the start of the input, \<open>JSONArray\<close> is
  the loop over the elements of an array (the input at the start of an element),
  \<open>JSONObject\<close> the loop over the members of an object (the input after the opening
  quote of a key). Each returns the value and the rest of the input, or the exception
  raised: \<open>JSONDecodeError\<close> on a text that is not JSON, the \<open>ValueError\<close> of an integer
  literal that is too long, \<open>RecursionError\<close> on entering an array or an object when the
  nesting has used up the recursion the interpreter allows.

  The first argument is the nesting still allowed. \<open>json_loads\<close> starts with
  \<open>RECURSION_LIMIT\<close>, the default of \<open>sys.getrecursionlimit()\<close>: no document nested deeper
  is read (the frames already on the stack, which lower the bound by what the caller
  uses, are not modelled). The second argument bounds the number of calls, so that the
  functions are total; \<open>json_loads\<close> starts with a bound that the input cannot use up,
  two calls being at least one character apart.
\<close>

definition RECURSION_LIMIT :: nat where
  "RECURSION_LIMIT = 1000"

fun scan_once :: "nat \<Rightarrow> nat \<Rightarrow> string \<Rightarrow> error + json \<times> string"
  and JSONArray :: "nat \<Rightarrow> nat \<Rightarrow> json list \<Rightarrow> string \<Rightarrow> error + json \<times> string"
  and JSONObject :: "nat \<Rightarrow> nat \<Rightarrow> (string \<times> json) list \<Rightarrow> string \<Rightarrow> error + json \<times> string"
where
  "scan_once depth 0 s = Inl JSONDecodeError"
| \<open>scan_once depth (Suc n) s =
     (case s of
        [] \<Rightarrow> Inl JSONDecodeError
      | c # r \<Rightarrow>
          if c = CHR ''"'' then
            (case scanstring r of
               None \<Rightarrow> Inl JSONDecodeError
             | Some (str, r1) \<Rightarrow> Inr (JStr str, r1))
          else if c = CHR ''{'' then
            (if depth = 0 then Inl RecursionError
             else
               (case skip_ws r of
                  [] \<Rightarrow> Inl JSONDecodeError
                | d # r1 \<Rightarrow>
                    if d = CHR ''}'' then Inr (JObj [], r1)
                    else if d = CHR ''"'' then JSONObject (depth - 1) n [] r1
                    else Inl JSONDecodeError))
          else if c = CHR ''['' then
            (if depth = 0 then Inl RecursionError
             else
               (case skip_ws r of
                  [] \<Rightarrow> Inl JSONDecodeError
                | d # r1 \<Rightarrow>
                    if d = CHR '']'' then Inr (JArr [], r1)
                    else JSONArray (depth - 1) n [] (d # r1)))
          else if prefix ''null'' s then Inr (JNull, drop 4 s)
          else if prefix ''true'' s then Inr (JBool True, drop 4 s)
          else if prefix ''false'' s then Inr (JBool False, drop 5 s)
          else
            (case match_number s of
               Some res \<Rightarrow> res
             | None \<Rightarrow>
                 if prefix ''NaN'' s then Inr (JFloat ''NaN'', drop 3 s)
                 else if prefix ''Infinity'' s then Inr (JFloat ''Infinity'', drop 8 s)
                 else if prefix ''-Infinity'' s then Inr (JFloat ''-Infinity'', drop 9 s)
                 else Inl JSONDecodeError))\<close>
| "JSONArray depth 0 vs s = Inl JSONDecodeError"
| \<open>JSONArray depth (Suc n) vs s =
     (case scan_once depth n s of
        Inl e \<Rightarrow> Inl e
      | Inr (v, r) \<Rightarrow>
          (case skip_ws r of
             [] \<Rightarrow> Inl JSONDecodeError
           | c # r1 \<Rightarrow>
               if c = CHR '']'' then Inr (JArr (vs @ [v]), r1)
               else if c = CHR '','' then JSONArray depth n (vs @ [v]) (skip_ws r1)
               else Inl JSONDecodeError))\<close>
| "JSONObject depth 0 ps s = Inl JSONDecodeError"
| \<open>JSONObject depth (Suc n) ps s =
     (case scanstring s of
        None \<Rightarrow> Inl JSONDecodeError
      | Some (key, r) \<Rightarrow>
          (case skip_ws r of
             [] \<Rightarrow> Inl JSONDecodeError
           | c # r1 \<Rightarrow>
               if c \<noteq> CHR '':'' then Inl JSONDecodeError
               else
                 (case scan_once depth n (skip_ws r1) of
                    Inl e \<Rightarrow> Inl e
                  | Inr (v, r2) \<Rightarrow>
                      (case skip_ws r2 of
                         [] \<Rightarrow> Inl JSONDecodeError
                       | d # r3 \<Rightarrow>
                           if d = CHR ''}'' then Inr (JObj (dict (ps @ [(key, v)])), r3)
                           else if d \<noteq> CHR '','' then Inl JSONDecodeError
                           else
                             (case skip_ws r3 of
                                [] \<Rightarrow> Inl JSONDecodeError
                              | q # r4 \<Rightarrow>
                                  if q = CHR ''"'' then JSONObject depth n (ps @ [(key, v)]) r4
                                  else Inl JSONDecodeError)))))\<close>

text \<open>
  \<open>json.loads\<close>: a byte order mark is refused; white space may surround the value;
  anything else after it is an error.
\<close>

definition json_loads :: "string \<Rightarrow> error + json" where
  "json_loads s =
     (if prefix [CHR 0xEF, CHR 0xBB, CHR 0xBF] s then Inl JSONDecodeError
      else
        (case scan_once RECURSION_LIMIT (2 * length s + 2) (skip_ws s) of
           Inl e \<Rightarrow> Inl e
         | Inr (obj, r) \<Rightarrow> if skip_ws r = [] then Inr obj else Inl JSONDecodeError))"

subsection \<open>The constructor\<close>

definition lang_msg :: string where
  "lang_msg = ''The provided 'lang' is invalid. Choose from 'fr', 'de' and 'it'.''"

definition wait_range_msg :: string where
  "wait_range_msg = ''The provided 'wait_range' is invalid. Length must be equal to 2 and first element must be greater than the second.''"

text \<open>
  \<open>__init__\<close>, in the order of the source: the headers (generated when none are given),
  the check of \<open>lang\<close>, the check of \<open>wait_range\<close> (the comparison is evaluated only when
  the length is 2), the session.
\<close>

definition init ::
  "bool \<Rightarrow> bool \<Rightarrow> headers option \<Rightarrow> proxies \<Rightarrow> real list \<Rightarrow> int \<Rightarrow> string \<Rightarrow> string \<Rightarrow>
   world \<Rightarrow> (error + api) \<times> world" where
  "init use_session' bypass_captcha' headers' proxies' wait_range' max_retries' lang' tmp_dir' w =
     (let (h, w1) = (case headers' of None \<Rightarrow> get_headers w | Some h \<Rightarrow> (h, w)) in
      if lang' \<notin> set [''fr'', ''de'', ''it''] then (Inl (InvalidArgsException lang_msg), w1)
      else if length wait_range' \<noteq> 2 \<or> wait_range' ! 0 > wait_range' ! 1
        then (Inl (InvalidArgsException wait_range_msg), w1)
      else (case load_session use_session' tmp_dir' h proxies' w1 of
              Inl e \<Rightarrow> (Inl e, w1)
            | Inr s \<Rightarrow>
                (Inr \<lparr>use_session = use_session', bypass_captcha = bypass_captcha',
                      headers = h, proxies = proxies', lang = lang',
                      wait_range = wait_range', max_retries = max_retries',
                      tmp_dir = tmp_dir', session = s\<rparr>, w1)))"

subsection \<open>Requests\<close>

text \<open>
  \<open>_LIST_URL\<close>: the listing page of the language; \<open>LANG_MAP[self._lang]\<close> raises
  \<open>KeyError\<close> on a language the map does not have.
\<close>

definition LANG_MAP :: "(string \<times> string) list" where
  "LANG_MAP = [(''fr'', ''fr/voitures''), (''de'', ''de/autos''), (''it'', ''it/automobili'')]"

definition LIST_URL :: "api \<Rightarrow> error + string" where
  "LIST_URL self =
     (case map_of LANG_MAP (lang self) of
        None \<Rightarrow> Inl (KeyError (lang self))
      | Some p \<Rightarrow> Inr (''https://www.autoscout24.ch/'' @ p @ ''/s''))"

text \<open>
  \<open>self._BASE_URL\<close>, which \<open>listing_details\<close> reads: the class defines \<open>_LIST_URL\<close>,
  \<open>_SESSION_FILENAME\<close>, \<open>_tmp_path\<close> and \<open>_session_file_path\<close>, no \<open>_BASE_URL\<close>, and the
  constructor sets no such attribute, so the lookup raises \<open>AttributeError\<close>.
\<close>

definition BASE_URL :: "api \<Rightarrow> error + string" where
  "BASE_URL self = Inl (AttributeError ''_BASE_URL'')"

text \<open>
  \<open>_get\<close>: print the URL, send the request through the session, save the session when
  sessions are used, return the response.
\<close>

definition get :: "api \<Rightarrow> string \<Rightarrow> string \<Rightarrow> world \<Rightarrow> response \<times> api \<times> world" where
  "get self base_url query_params w =
     (let url = base_url @ ''?'' @ query_params;
          w1 = w\<lparr>stdout := stdout w @ [url]\<rparr>;
          (res, s) = http w1 (length (sent w1)) url (headers self) (proxies self) (session self);
          self1 = self\<lparr>session := s\<rparr>;
          w2 = w1\<lparr>sent := sent w1 @ [url], received := received w1 @ [res]\<rparr>
      in if use_session self1 then (res, self1, save_session self1 w2) else (res, self1, w2))"

text \<open>\<open>random.uniform(a, b)\<close> is \<open>a + (b - a) * random()\<close>.\<close>

definition uniform :: "real \<Rightarrow> real \<Rightarrow> world \<Rightarrow> real \<times> world" where
  "uniform a b w =
     (a + (b - a) * random w (random_drawn w), w\<lparr>random_drawn := Suc (random_drawn w)\<rparr>)"

text \<open>\<open>time.sleep(secs)\<close> raises \<open>ValueError\<close> on a negative duration.\<close>

definition sleep :: "real \<Rightarrow> world \<Rightarrow> error + world" where
  "sleep secs w = (if secs < 0 then Inl ValueError else Inr (w\<lparr>slept := slept w @ [secs]\<rparr>))"

subsection \<open>\<open>search_list\<close>\<close>

text \<open>
  Modelled from the spec: \<open>Auto24APISearchResponse\<close> (\<open>auto24_api/responses.py\<close> is not
  among the sources). The spec's \<open>SearchResponse\<close> "holds the raw parsed JSON document, a
  stats sub-object, and a list of search-result records"; the fields have the names of
  the keyword arguments the source constructs it with.
\<close>

record search_response =
  raw :: json
  stats :: json
  search_results :: json

text \<open>
  The \<open>return\<close> statement of \<open>search_list\<close>: \<open>data["search"]["stats"]\<close> is evaluated
  before \<open>data["searchResults"]\<close>.
\<close>

definition make_response :: "json \<Rightarrow> error + search_response" where
  "make_response data =
     (case subscript data ''search'' of
        Inl e \<Rightarrow> Inl e
      | Inr search \<Rightarrow>
          (case subscript search ''stats'' of
             Inl e \<Rightarrow> Inl e
           | Inr st \<Rightarrow>
               (case subscript data ''searchResults'' of
                  Inl e \<Rightarrow> Inl e
                | Inr rs \<Rightarrow> Inr \<lparr>raw = data, stats = st, search_results = rs\<rparr>)))"

text \<open>
  One pass through the body of the \<open>while\<close> loop of \<open>search_list\<close>. The result is
  \<open>None\<close> when the body reaches \<open>continue\<close>, and \<open>Some\<close> of what \<open>search_list\<close> returns
  or raises when the body leaves the loop. \<open>enc config\<close> is
  \<open>QueryEncoderFactory(config).data\<close>, the query string of the query: the encoder
  (\<open>auto24_api/utils/query_encoder_factory.py\<close>) is not among the sources and is a
  parameter. \<open>random.uniform(*self._wait_range)\<close> raises \<open>TypeError\<close> unless the range
  has two elements.
\<close>

definition attempt ::
  "('q \<Rightarrow> string) \<Rightarrow> api \<Rightarrow> 'q \<Rightarrow> world \<Rightarrow> (error + search_response) option \<times> api \<times> world" where
  "attempt enc self config w =
     (case LIST_URL self of
        Inl e \<Rightarrow> (Some (Inl e), self, w)
      | Inr url \<Rightarrow>
          (let (res, self1, w1) = get self url (enc config) w;
               sp = html_parser w1 (content res)
           in if find_attrs sp ''div'' [(''id'', ''captcha'')] \<noteq> None
                 \<or> find_string sp ''title'' ''Anti-Bot Captcha'' \<noteq> None
              then (Some (Inl ReCaptchaRequiredException), self1, w1)
              else
                (case find_attrs sp ''script'' [(''id'', ''initial-state'')] of
                   None \<Rightarrow>
                     (let w2 = w1\<lparr>out_html := out_html w1 @ [res_text res]\<rparr>;
                          (h, w3) = get_headers w2;
                          self2 = self1\<lparr>headers := h\<rparr>
                      in case wait_range self2 of
                           [a, b] \<Rightarrow>
                             (let (secs, w4) = uniform a b w3
                              in case sleep secs w4 of
                                   Inl e \<Rightarrow> (Some (Inl e), self2, w4)
                                 | Inr w5 \<Rightarrow> (None, self2, w5))
                         | _ \<Rightarrow> (Some (Inl TypeError), self2, w3))
                 | Some script_tag \<Rightarrow>
                     (case json_loads (parsejs_to_json (tag_text script_tag)) of
                        Inl e \<Rightarrow> (Some (Inl e), self1, w1)
                      | Inr data \<Rightarrow> (Some (make_response data), self1, w1)))))"

text \<open>
  The loop of \<open>search_list\<close>, from a value of \<open>tries\<close>: \<open>tries\<close> is incremented when the
  body continues; leaving the loop by its condition raises \<open>DataNotFoundException\<close>.
\<close>

function search_loop ::
  "('q \<Rightarrow> string) \<Rightarrow> 'q \<Rightarrow> int \<Rightarrow> api \<Rightarrow> world \<Rightarrow> (error + search_response) \<times> api \<times> world" where
  "search_loop enc config tries self w =
     (if tries < max_retries self then
        (case attempt enc self config w of
           (None, self', w') \<Rightarrow> search_loop enc config (tries + 1) self' w'
         | (Some r, self', w') \<Rightarrow> (r, self', w'))
      else (Inl DataNotFoundException, self, w))"
  by pat_completeness auto
termination
proof (relation "measure (\<lambda>(enc, config, tries, self, w). nat (max_retries self - tries))")
  show "wf (measure (\<lambda>(enc, config, tries, self, w). nat (max_retries self - tries)))"
    by simp
next
  fix enc :: "'q \<Rightarrow> string" and config :: 'q and tries :: int and self :: api and w :: world
    and x :: "(error + search_response) option" and y :: "api \<times> world"
    and self' :: api and w' :: world
  assume lt: "tries < max_retries self"
    and x: "(x, y) = attempt enc self config w" "x = None" "(self', w') = y"
  from x have a: "attempt enc self config w = (None, self', w')"
    by (metis (full_types))
  have "max_retries self' = max_retries self"
    using a
    by (auto simp: attempt_def get_def Let_def get_headers_def
        split: sum.splits prod.splits if_splits option.splits list.splits)
  with lt
  show "((enc, config, tries + 1, self', w'), (enc, config, tries, self, w))
        \<in> measure (\<lambda>(enc, config, tries, self, w). nat (max_retries self - tries))"
    by simp
qed

definition search_list ::
  "('q \<Rightarrow> string) \<Rightarrow> api \<Rightarrow> 'q \<Rightarrow> world \<Rightarrow> (error + search_response) \<times> api \<times> world" where
  "search_list enc self config w = search_loop enc config 0 self w"

subsection \<open>\<open>listing_details\<close>\<close>

text \<open>
  The arguments of the call of \<open>_get\<close> are evaluated first, \<open>self._BASE_URL\<close> before the
  query string; the response is dropped and the method returns \<open>None\<close>.
\<close>

definition listing_details ::
  "('q \<Rightarrow> string) \<Rightarrow> api \<Rightarrow> 'q \<Rightarrow> world \<Rightarrow> (error + unit) \<times> api \<times> world" where
  "listing_details enc self config w =
     (case BASE_URL self of
        Inl e \<Rightarrow> (Inl e, self, w)
      | Inr url \<Rightarrow> (let (res, self1, w1) = get self url (enc config) w in (Inr (), self1, w1)))"

subsection \<open>Conditions on a document and on a JSON value\<close>

text \<open>
  The conditions the properties below are stated with: the two tests of the source for
  a captcha (line 135), the script element it looks for (line 140), and a value that
  has no key \<open>k\<close> (a \<open>dict\<close> without the key, or a value that is no \<open>dict\<close>).
\<close>

definition captcha_marker :: "soup \<Rightarrow> bool" where
  "captcha_marker sp \<longleftrightarrow>
     find_attrs sp ''div'' [(''id'', ''captcha'')] \<noteq> None
     \<or> find_string sp ''title'' ''Anti-Bot Captcha'' \<noteq> None"

definition initial_state :: "soup \<Rightarrow> tag option" where
  "initial_state sp = find_attrs sp ''script'' [(''id'', ''initial-state'')]"


subsection \<open>Example objects and worlds\<close>

text \<open>
  A world whose server answers every request with the same page, parsed to the given
  document; and an object with the default arguments of the constructor but for
  \<open>use_session\<close>, \<open>wait_range\<close> and \<open>max_retries\<close>. A query is its own query string.
\<close>

definition example_world :: "soup \<Rightarrow> world" where
  "example_world sp =
     \<lparr>http = (\<lambda>k url h p s. (\<lparr>content = ''<html>'', res_text = ''<html>''\<rparr>, s)),
      sent = [],
      received = [],
      html_parser = (\<lambda>c. sp),
      new_session = (\<lambda>h p. Some []),
      fake_headers = (\<lambda>k. [(''User-Agent'', ''Mozilla/5.0'')]),
      headers_generated = 0,
      random = (\<lambda>k. 1 / 2),
      random_drawn = 0,
      pickled = [],
      out_html = [],
      slept = [],
      stdout = []\<rparr>"

text \<open>
  The same world as the library makes it: \<open>requests.Session\<close> declares no parameters,
  so the constructor call of \<open>_load_session\<close> fails; the session file of an earlier run
  is present under the directory \<open>.\<close>.
\<close>

definition stored_world :: "soup \<Rightarrow> world" where
  "stored_world sp =
     (example_world sp)
       \<lparr>new_session := (\<lambda>h p. None),
        pickled := [(''./.auto24api/tmp/session.pkl'', [])]\<rparr>"

definition example_api :: "bool \<Rightarrow> real list \<Rightarrow> int \<Rightarrow> api" where
  "example_api us wr mr =
     \<lparr>use_session = us, bypass_captcha = False, headers = [], proxies = None,
      lang = ''fr'', wait_range = wr, max_retries = mr, tmp_dir = ''.'', session = []\<rparr>"

definition example_enc :: "string \<Rightarrow> string" where
  "example_enc q = q"

definition captcha_page :: soup where
  "captcha_page = [\<lparr>name = ''div'', attrs = [(''id'', ''captcha'')], tag_string = None, tag_text = []\<rparr>]"

definition plain_page :: soup where
  "plain_page =
     [\<lparr>name = ''title'', attrs = [], tag_string = Some ''AutoScout24'', tag_text = ''AutoScout24''\<rparr>]"

definition state_page :: "string \<Rightarrow> soup" where
  "state_page js =
     [\<lparr>name = ''script'', attrs = [(''id'', ''initial-state'')], tag_string = Some js, tag_text = js\<rparr>]"

section \<open>Properties\<close>

subsection \<open>The constructor\<close>

lemma lang_msg_neq_wait_range_msg: "wait_range_msg \<noteq> lang_msg"
  by (simp add: lang_msg_def wait_range_msg_def)

lemma load_session_not_InvalidArgs: "load_session us td h px w \<noteq> Inl (InvalidArgsException m)"
  by (simp add: load_session_def split: option.splits)

lemma load_session_Inr:
  "new_session w h px \<noteq> None \<Longrightarrow> \<exists>s. load_session us td h px w = Inr s"
  by (auto simp: load_session_def split: option.splits)

text \<open>
  C5. The constructor raises the \<open>InvalidArgsException\<close> of the locale check exactly when
  \<open>lang\<close> is outside \<open>fr\<close>, \<open>de\<close>, \<open>it\<close>: outside, it is raised whatever the other
  arguments and the world are; inside, it is never raised.
\<close>

theorem init_lang:
  "fst (init us bc hs px wr mr lang' td w) = Inl (InvalidArgsException lang_msg)
   \<longleftrightarrow> lang' \<notin> {''fr'', ''de'', ''it''}"
  using lang_msg_neq_wait_range_msg load_session_not_InvalidArgs
  by (auto simp: init_def split: prod.splits sum.splits)

theorem init_lang_witness:
  "fst (init True False None None [2, 5] 3 ''en'' ''.'' (example_world []))
     = Inl (InvalidArgsException lang_msg) \<and>
   fst (init True False None None [2, 5] 3 ''fr'' ''.'' (example_world []))
     \<noteq> Inl (InvalidArgsException lang_msg)"
  using init_lang [of True False None None "[2, 5]" 3 "''en''" "''.''" "example_world []"]
    init_lang [of True False None None "[2, 5]" 3 "''fr''" "''.''" "example_world []"]
  by simp

text \<open>
  C6. With a valid \<open>lang\<close>: a \<open>wait_range\<close> whose length is not 2, or whose first
  element is greater than the second, makes the constructor raise
  \<open>InvalidArgsException\<close> (with the message about \<open>wait_range\<close>); a \<open>wait_range\<close> of
  length 2 with the first element at most the second is accepted: no
  \<open>InvalidArgsException\<close> is raised, the object constructed has this \<open>wait_range\<close>, and
  an object is constructed whenever the library makes a session.
\<close>

theorem init_wait_range:
  assumes "lang' \<in> {''fr'', ''de'', ''it''}"
  shows "(length wr \<noteq> 2 \<or> wr ! 0 > wr ! 1 \<longrightarrow>
            fst (init us bc hs px wr mr lang' td w) = Inl (InvalidArgsException wait_range_msg)) \<and>
         (length wr = 2 \<and> wr ! 0 \<le> wr ! 1 \<longrightarrow>
            (\<forall>m. fst (init us bc hs px wr mr lang' td w) \<noteq> Inl (InvalidArgsException m)) \<and>
            (\<forall>a. fst (init us bc hs px wr mr lang' td w) = Inr a \<longrightarrow> wait_range a = wr) \<and>
            ((\<forall>h. new_session w h px \<noteq> None) \<longrightarrow>
               (\<exists>a. fst (init us bc hs px wr mr lang' td w) = Inr a)))"
proof (intro conjI impI)
  assume "length wr \<noteq> 2 \<or> wr ! 0 > wr ! 1"
  with assms show "fst (init us bc hs px wr mr lang' td w) = Inl (InvalidArgsException wait_range_msg)"
    by (auto simp: init_def split: prod.splits)
next
  assume ok: "length wr = 2 \<and> wr ! 0 \<le> wr ! 1"
  with assms show "\<forall>m. fst (init us bc hs px wr mr lang' td w) \<noteq> Inl (InvalidArgsException m)"
    using load_session_not_InvalidArgs
    by (auto simp: init_def split: prod.splits sum.splits)
  from assms ok show "\<forall>a. fst (init us bc hs px wr mr lang' td w) = Inr a \<longrightarrow> wait_range a = wr"
    by (auto simp: init_def split: prod.splits sum.splits)
  assume ns: "\<forall>h. new_session w h px \<noteq> None"
  show "\<exists>a. fst (init us bc hs px wr mr lang' td w) = Inr a"
  proof (cases hs)
    case None
    obtain s where "load_session us td (fst (get_headers w)) px (snd (get_headers w)) = Inr s"
      using load_session_Inr [of "snd (get_headers w)" "fst (get_headers w)" px us td] ns
      by (auto simp: get_headers_def)
    with assms ok None show ?thesis
      by (auto simp: init_def split: prod.splits)
  next
    case (Some h)
    obtain s where "load_session us td h px w = Inr s"
      using load_session_Inr [of w h px us td] ns by auto
    with assms ok Some show ?thesis
      by (simp add: init_def)
  qed
qed

lemma init_stored:
  assumes "length wr = 2" and "wr ! 0 \<le> wr ! 1"
  shows "init True False None None wr mr ''fr'' ''.'' (stored_world sp)
     = (Inr ((example_api True wr mr)\<lparr>headers := [(''User-Agent'', ''Mozilla/5.0'')]\<rparr>),
        (stored_world sp)\<lparr>headers_generated := 1\<rparr>)"
  using assms
  by (simp add: init_def get_headers_def load_session_def read_pickle_def stored_world_def
      example_world_def example_api_def session_file_path_def tmp_path_def path_join_def
      SESSION_FILENAME_def)

theorem init_wait_range_witness:
  "fst (init True False None None [5, 2] 3 ''fr'' ''.'' (stored_world []))
     = Inl (InvalidArgsException wait_range_msg) \<and>
   fst (init True False None None [2] 3 ''fr'' ''.'' (stored_world []))
     = Inl (InvalidArgsException wait_range_msg) \<and>
   (\<exists>a. fst (init True False None None [2, 5] 3 ''fr'' ''.'' (stored_world [])) = Inr a \<and>
        wait_range a = [2, 5])"
  using init_wait_range [of "''fr''" "[5, 2]" True False None None 3 "''.''" "stored_world []"]
    init_wait_range [of "''fr''" "[2]" True False None None 3 "''.''" "stored_world []"]
    init_wait_range [of "''fr''" "[2, 5]" True False None None 3 "''.''" "stored_world []"]
    init_stored [of "[2, 5]" 3 "[]"]
  by auto

subsection \<open>The scanner\<close>

lemma scan_once_object:
  \<open>scan_once depth (Suc n) (CHR ''{'' # t) =
     (if depth = 0 then Inl RecursionError
      else
        (case skip_ws t of
           [] \<Rightarrow> Inl JSONDecodeError
         | d # r1 \<Rightarrow>
             if d = CHR ''}'' then Inr (JObj [], r1)
             else if d = CHR ''"'' then JSONObject (depth - 1) n [] r1
             else Inl JSONDecodeError))\<close>
  by simp

lemma scan_once_array:
  \<open>scan_once depth (Suc n) (CHR ''['' # t) =
     (if depth = 0 then Inl RecursionError
      else
        (case skip_ws t of
           [] \<Rightarrow> Inl JSONDecodeError
         | d # r1 \<Rightarrow>
             if d = CHR '']'' then Inr (JArr [], r1)
             else JSONArray (depth - 1) n [] (d # r1)))\<close>
  by simp

lemma scan_once_scalar:
  "c \<noteq> CHR ''{'' \<Longrightarrow> c \<noteq> CHR ''['' \<Longrightarrow>
     scan_once depth (Suc n) (c # t) = scan_once depth' (Suc m) (c # t)"
  by simp

lemma scan_once_Nil: "scan_once depth n [] = Inl JSONDecodeError"
  by (cases n) simp_all





text \<open>Both other exceptions occur.\<close>

lemma scan_once_too_deep:
  "scan_once 0 (Suc n) (CHR ''['' # t) = Inl RecursionError"
  "scan_once 0 (Suc n) (CHR ''{'' # t) = Inl RecursionError"
  by simp_all

lemma parse_int_too_long:
  "INT_MAX_STR_DIGITS < length ds \<Longrightarrow> hd ds \<noteq> CHR ''-'' \<Longrightarrow> parse_int ds = Inl ValueError"
  by (cases ds) (auto simp: parse_int_def)

text \<open>
  The bound on the calls only cuts a computation off: a value read, or an exception other
  than the \<open>JSONDecodeError\<close> that also stands for the cut, is the same under every
  larger bound.
\<close>

lemma scan_bound_Suc:
  "scan_once depth n s = x \<Longrightarrow> x \<noteq> Inl JSONDecodeError \<Longrightarrow> scan_once depth (Suc n) s = x"
  "JSONArray depth n vs s = x \<Longrightarrow> x \<noteq> Inl JSONDecodeError \<Longrightarrow> JSONArray depth (Suc n) vs s = x"
  "JSONObject depth n ps s = x \<Longrightarrow> x \<noteq> Inl JSONDecodeError \<Longrightarrow> JSONObject depth (Suc n) ps s = x"
proof (induction n arbitrary: depth s vs ps x)
  case 0
  {
    case 1 then show ?case by simp
  next
    case 2 then show ?case by simp
  next
    case 3 then show ?case by simp
  }
next
  case (Suc n)
  {
    case 1
    show ?case
    proof (cases s)
      case Nil
      with 1 show ?thesis by (simp add: scan_once_Nil)
    next
      case (Cons c t)
      consider (obj) "c = CHR ''{''" | (arr) "c = CHR ''[''" | (other) "c \<noteq> CHR ''{''" "c \<noteq> CHR ''[''"
        by blast
      then show ?thesis
      proof cases
        case obj
        from 1 show ?thesis
          unfolding Cons obj scan_once_object
          by (auto simp del: JSONObject.simps simp add: Suc.IH(3) [OF refl]
              split: list.splits if_splits)
      next
        case arr
        from 1 show ?thesis
          unfolding Cons arr scan_once_array
          by (auto simp del: JSONArray.simps simp add: Suc.IH(2) [OF refl]
              split: list.splits if_splits)
      next
        case other
        from 1 show ?thesis
          unfolding Cons using scan_once_scalar [OF other, of depth n t depth "Suc n"] by simp
      qed
    qed
  next
    case 2
    show ?case
    proof (cases "scan_once depth n s")
      case (Inl e)
      with 2 have x: "x = Inl e" "e \<noteq> JSONDecodeError"
        by (auto simp del: scan_once.simps)
      with Suc.IH(1) [OF Inl] have "scan_once depth (Suc n) s = Inl e" by simp
      with x show ?thesis by (simp del: scan_once.simps)
    next
      case (Inr vr)
      obtain v t where vr: "vr = (v, t)" by (cases vr)
      from Suc.IH(1) [OF Inr] have v': "scan_once depth (Suc n) s = Inr (v, t)"
        using vr by simp
      from 2 Inr vr v' show ?thesis
        by (auto simp del: scan_once.simps JSONArray.simps
            simp add: JSONArray.simps(2) [of depth n vs s] JSONArray.simps(2) [of depth "Suc n" vs s]
              Suc.IH(2) [OF refl]
            split: list.splits if_splits)
    qed
  next
    case 3
    from 3 obtain k t where k: "scanstring s = Some (k, t)"
      by (auto simp del: scan_once.simps split: option.splits)
    from 3 k obtain c t1 where t: "skip_ws t = c # t1" "c = CHR '':''"
      by (auto simp del: scan_once.simps split: list.splits if_splits)
    show ?case
    proof (cases "scan_once depth n (skip_ws t1)")
      case (Inl e)
      with 3 k t have x: "x = Inl e" "e \<noteq> JSONDecodeError"
        by (auto simp del: scan_once.simps)
      with Suc.IH(1) [OF Inl] have "scan_once depth (Suc n) (skip_ws t1) = Inl e" by simp
      with x k t show ?thesis by (simp del: scan_once.simps)
    next
      case (Inr vr)
      obtain v t2 where vr: "vr = (v, t2)" by (cases vr)
      from Suc.IH(1) [OF Inr] have v': "scan_once depth (Suc n) (skip_ws t1) = Inr (v, t2)"
        using vr by simp
      from 3 k t Inr vr v' show ?thesis
        by (auto simp del: scan_once.simps JSONObject.simps
            simp add: JSONObject.simps(2) [of depth n ps s] JSONObject.simps(2) [of depth "Suc n" ps s]
              Suc.IH(3) [OF refl]
            split: list.splits if_splits)
    qed
  }
qed

lemma scan_once_bound:
  "scan_once depth n s = x \<Longrightarrow> x \<noteq> Inl JSONDecodeError \<Longrightarrow> scan_once depth (n + k) s = x"
  by (induction k) (auto simp del: scan_once.simps simp add: scan_bound_Suc(1) [OF refl])

subsection \<open>The cleanup of the script text\<close>












subsection \<open>The loop of \<open>search_list\<close>\<close>

text \<open>
  C10. With \<open>max_retries\<close> at most 0 the body of the loop is never entered:
  \<open>search_list\<close> raises \<open>DataNotFoundException\<close> and leaves the object and the world as
  they were (no request, no file written, no sleep).
\<close>

theorem search_list_no_attempt:
  "max_retries self \<le> 0 \<Longrightarrow>
     search_list enc self config w = (Inl DataNotFoundException, self, w)"
  by (simp add: search_list_def)

theorem search_list_no_attempt_witness:
  "max_retries (example_api True [2, 5] 0) \<le> 0 \<and>
   search_list example_enc (example_api True [2, 5] 0) ''make=bmw'' (example_world plain_page)
     = (Inl DataNotFoundException, example_api True [2, 5] 0, example_world plain_page)"
  using search_list_no_attempt
    [of "example_api True [2, 5] 0" example_enc "''make=bmw''" "example_world plain_page"]
  by (simp add: example_api_def)

lemma get_frame:
  assumes "get self base q w = (res, self1, w1)"
  shows "res = fst (http w (length (sent w)) (base @ ''?'' @ q) (headers self) (proxies self) (session self))"
    and "self1 = self\<lparr>session := snd (http w (length (sent w)) (base @ ''?'' @ q) (headers self) (proxies self) (session self))\<rparr>"
    and "sent w1 = sent w @ [base @ ''?'' @ q]"
    and "received w1 = received w @ [res]"
    and "stdout w1 = stdout w @ [base @ ''?'' @ q]"
    and "out_html w1 = out_html w"
    and "slept w1 = slept w"
    and "headers_generated w1 = headers_generated w"
    and "random_drawn w1 = random_drawn w"
    and "http w1 = http w"
    and "html_parser w1 = html_parser w"
    and "random w1 = random w"
    and "fake_headers w1 = fake_headers w"
    and "pickled w1 = (if use_session self then pickled w @ [(session_file_path (tmp_dir self), session self1)] else pickled w)"
  using assms
  by (auto simp: get_def Let_def save_session_def split: prod.splits if_splits)

lemma search_loop_step:
  "tries < max_retries self \<Longrightarrow>
     search_loop enc config tries self w =
       (case attempt enc self config w of
          (None, self', w') \<Rightarrow> search_loop enc config (tries + 1) self' w'
        | (Some r, self', w') \<Rightarrow> (r, self', w'))"
  by simp

lemma attempt_captcha:
  assumes "LIST_URL self = Inr url" "get self url (enc config) w = (res, self1, w1)"
    "captcha_marker (html_parser w (content res))"
  shows "attempt enc self config w = (Some (Inl ReCaptchaRequiredException), self1, w1)"
  using assms get_frame(11) [OF assms(2)]
  by (simp add: attempt_def captcha_marker_def)

lemma attempt_found:
  assumes "LIST_URL self = Inr url" "get self url (enc config) w = (res, self1, w1)"
    "\<not> captcha_marker (html_parser w (content res))"
    "initial_state (html_parser w (content res)) = Some t"
  shows "attempt enc self config w =
           (Some (case json_loads (parsejs_to_json (tag_text t)) of
                    Inl e \<Rightarrow> Inl e | Inr data \<Rightarrow> make_response data), self1, w1)"
  using assms get_frame(11) [OF assms(2)]
  by (simp add: attempt_def captcha_marker_def initial_state_def split: sum.splits)

text \<open>
  C3 (as amended). When the loop is entered (\<open>max_retries\<close> at least 1) and the response
  to the first request has a captcha marker (a \<open>div\<close> with id \<open>captcha\<close>, or a \<open>title\<close>
  whose string is \<open>Anti-Bot Captcha\<close>), \<open>search_list\<close> raises
  \<open>ReCaptchaRequiredException\<close> on that attempt: one request has been sent, nothing was
  written to \<open>out.html\<close>, no headers were generated and nothing was slept. The claim as
  stated ("regardless of \<open>max_retries\<close>") fails for \<open>max_retries\<close> at most 0, where no
  request is sent and \<open>DataNotFoundException\<close> is raised: see the counterexample.
\<close>

theorem search_list_captcha:
  assumes "0 < max_retries self"
    and "LIST_URL self = Inr url"
    and "get self url (enc config) w = (res, self1, w1)"
    and "captcha_marker (html_parser w (content res))"
  shows "search_list enc self config w = (Inl ReCaptchaRequiredException, self1, w1) \<and>
         sent w1 = sent w @ [url @ ''?'' @ enc config] \<and>
         received w1 = received w @ [res] \<and>
         out_html w1 = out_html w \<and>
         headers_generated w1 = headers_generated w \<and>
         headers self1 = headers self \<and>
         slept w1 = slept w"
proof -
  have "search_list enc self config w = (Inl ReCaptchaRequiredException, self1, w1)"
    unfolding search_list_def
    using assms(1) attempt_captcha [where enc = enc and config = config, OF assms(2,3,4)]
    by (simp add: search_loop_step)
  moreover have "headers self1 = headers self"
    using get_frame(2) [OF assms(3)] by simp
  ultimately show ?thesis
    using get_frame [OF assms(3)] by simp
qed

lemma ex_url: "LIST_URL (example_api us wr mr) = Inr ''https://www.autoscout24.ch/fr/voitures/s''"
  by (simp add: LIST_URL_def LANG_MAP_def example_api_def)

theorem search_list_captcha_witness:
  "0 < max_retries (example_api True [2, 5] 3) \<and>
   captcha_marker (html_parser (example_world captcha_page) ''<html>'') \<and>
   fst (search_list example_enc (example_api True [2, 5] 3) ''make=bmw'' (example_world captcha_page))
     = Inl ReCaptchaRequiredException \<and>
   sent (snd (snd (search_list example_enc (example_api True [2, 5] 3) ''make=bmw'' (example_world captcha_page))))
     = [''https://www.autoscout24.ch/fr/voitures/s?make=bmw''] \<and>
   out_html (snd (snd (search_list example_enc (example_api True [2, 5] 3) ''make=bmw'' (example_world captcha_page)))) = [] \<and>
   slept (snd (snd (search_list example_enc (example_api True [2, 5] 3) ''make=bmw'' (example_world captcha_page)))) = []"
proof -
  obtain res self1 w1 where g: "get (example_api True [2, 5] 3) ''https://www.autoscout24.ch/fr/voitures/s''
         (example_enc ''make=bmw'') (example_world captcha_page) = (res, self1, w1)"
    by (metis prod_cases3)
  have c: "content res = ''<html>''"
    using get_frame(1) [OF g] by (simp add: example_world_def)
  have m: "captcha_marker (html_parser (example_world captcha_page) ''<html>'')"
    by (simp add: captcha_marker_def example_world_def captcha_page_def find_attrs_def)
  have p: "0 < max_retries (example_api True [2, 5] 3)"
    by (simp add: example_api_def)
  from m c have m': "captcha_marker (html_parser (example_world captcha_page) (content res))"
    by simp
  show ?thesis
    using search_list_captcha [where enc = example_enc and config = "''make=bmw''", OF p ex_url g m'] m p
    by (simp add: example_world_def example_enc_def)
qed

theorem search_list_captcha_counterexample:
  "captcha_marker (html_parser (example_world captcha_page) ''<html>'') \<and>
   search_list example_enc (example_api True [2, 5] 0) ''make=bmw'' (example_world captcha_page)
     = (Inl DataNotFoundException, example_api True [2, 5] 0, example_world captcha_page) \<and>
   sent (example_world captcha_page) = []"
  by (simp add: captcha_marker_def example_world_def captcha_page_def find_attrs_def
      search_list_def example_api_def)

lemma fixture_loads:
  \<open>json_loads (parsejs_to_json
      ''window.INITIAL_STATE = {"search":{"stats":{"count":5}},"searchResults":[{"id":1}]};'')
   = Inr (JObj [(''search'', JObj [(''stats'', JObj [(''count'', JInt 5)])]),
                (''searchResults'', JArr [JObj [(''id'', JInt 1)]])])\<close>
  by code_simp

lemma fixture_response:
  "make_response (JObj [(''search'', JObj [(''stats'', JObj [(''count'', JInt 5)])]),
                        (''searchResults'', JArr [JObj [(''id'', JInt 1)]])])
   = Inr \<lparr>raw = JObj [(''search'', JObj [(''stats'', JObj [(''count'', JInt 5)])]),
                        (''searchResults'', JArr [JObj [(''id'', JInt 1)]])],
          stats = JObj [(''count'', JInt 5)],
          search_results = JArr [JObj [(''id'', JInt 1)]]\<rparr>"
  by (simp add: make_response_def subscript_def)

text \<open>
  C1. When the loop is entered and the response to the first request has no captcha
  marker and an \<open>initial-state\<close> script element whose text is the fixture of the
  specification, \<open>search_list\<close> returns on that attempt (one request sent, nothing
  written to \<open>out.html\<close>, nothing slept) a response whose \<open>stats\<close> are \<open>{"count": 5}\<close>
  and whose \<open>search_results\<close> are \<open>[{"id": 1}]\<close>.
\<close>

theorem search_list_fixture:
  assumes "0 < max_retries self"
    and "LIST_URL self = Inr url"
    and "get self url (enc config) w = (res, self1, w1)"
    and "\<not> captcha_marker (html_parser w (content res))"
    and "initial_state (html_parser w (content res)) = Some t"
    and \<open>tag_text t =
      ''window.INITIAL_STATE = {"search":{"stats":{"count":5}},"searchResults":[{"id":1}]};''\<close>
  shows "\<exists>r. search_list enc self config w = (Inr r, self1, w1) \<and>
             stats r = JObj [(''count'', JInt 5)] \<and>
             search_results r = JArr [JObj [(''id'', JInt 1)]] \<and>
             sent w1 = sent w @ [url @ ''?'' @ enc config] \<and>
             out_html w1 = out_html w \<and> slept w1 = slept w"
proof -
  have "attempt enc self config w =
          (Some (Inr \<lparr>raw = JObj [(''search'', JObj [(''stats'', JObj [(''count'', JInt 5)])]),
                        (''searchResults'', JArr [JObj [(''id'', JInt 1)]])],
                      stats = JObj [(''count'', JInt 5)],
                      search_results = JArr [JObj [(''id'', JInt 1)]]\<rparr>), self1, w1)"
    using attempt_found [where enc = enc and config = config, OF assms(2,3,4,5)]
    by (simp add: assms(6) fixture_loads fixture_response)
  with assms(1) have "search_list enc self config w =
          (Inr \<lparr>raw = JObj [(''search'', JObj [(''stats'', JObj [(''count'', JInt 5)])]),
                        (''searchResults'', JArr [JObj [(''id'', JInt 1)]])],
                      stats = JObj [(''count'', JInt 5)],
                      search_results = JArr [JObj [(''id'', JInt 1)]]\<rparr>, self1, w1)"
    by (simp add: search_list_def search_loop_step)
  then show ?thesis
    using get_frame [OF assms(3)] by simp
qed

lemma initial_state_state_page: "initial_state (state_page js) = Some (hd (state_page js))"
  by (simp add: initial_state_def state_page_def find_attrs_def)

lemma captcha_marker_state_page: "\<not> captcha_marker (state_page js)"
  by (simp add: captcha_marker_def state_page_def find_attrs_def find_string_def)

lemma tag_text_state_page: "tag_text (hd (state_page js)) = js"
  by (simp add: state_page_def)

theorem search_list_fixture_witness:
  \<open>0 < max_retries (example_api True [2, 5] 3) \<and>
   (\<exists>r self1 w1.
      search_list example_enc (example_api True [2, 5] 3) ''make=bmw''
        (example_world (state_page
          ''window.INITIAL_STATE = {"search":{"stats":{"count":5}},"searchResults":[{"id":1}]};''))
        = (Inr r, self1, w1) \<and>
      stats r = JObj [(''count'', JInt 5)] \<and>
      search_results r = JArr [JObj [(''id'', JInt 1)]] \<and>
      sent w1 = [''https://www.autoscout24.ch/fr/voitures/s?make=bmw''])\<close>
proof -
  let ?js = \<open>''window.INITIAL_STATE = {"search":{"stats":{"count":5}},"searchResults":[{"id":1}]};''\<close>
  obtain res self1 w1 where g: "get (example_api True [2, 5] 3) ''https://www.autoscout24.ch/fr/voitures/s''
         (example_enc ''make=bmw'') (example_world (state_page ?js)) = (res, self1, w1)"
    by (metis prod_cases3)
  have hp: "html_parser (example_world (state_page ?js)) (content res) = state_page ?js"
    by (simp add: example_world_def)
  have p: "0 < max_retries (example_api True [2, 5] 3)"
    by (simp add: example_api_def)
  have c: "\<not> captcha_marker (html_parser (example_world (state_page ?js)) (content res))"
    unfolding hp by (rule captcha_marker_state_page)
  have i: "initial_state (html_parser (example_world (state_page ?js)) (content res))
             = Some (hd (state_page ?js))"
    unfolding hp by (rule initial_state_state_page)
  show ?thesis
    using search_list_fixture [where enc = example_enc and config = "''make=bmw''",
        OF p ex_url g c i tag_text_state_page] p
    by (auto simp: example_world_def example_enc_def)
qed









subsection \<open>Retries\<close>











subsection \<open>The session file\<close>

lemma attempt_counts:
  assumes "attempt enc self config w = (r, self', w')"
  shows "use_session self' = use_session self \<and> tmp_dir self' = tmp_dir self \<and>
         (\<exists>k. length (sent w') = length (sent w) + k \<and>
              length (pickled w') = length (pickled w) + (if use_session self then k else 0))"
proof (cases "LIST_URL self")
  case (Inl e)
  with assms show ?thesis by (auto simp: attempt_def)
next
  case (Inr url)
  obtain res self1 w1 where g: "get self url (enc config) w = (res, self1, w1)"
    by (metis prod_cases3)
  note fr = get_frame [OF g]
  have s1: "use_session self1 = use_session self" "tmp_dir self1 = tmp_dir self"
    using fr(2) by simp_all
  have a: "use_session self' = use_session self1 \<and> tmp_dir self' = tmp_dir self1 \<and>
           sent w' = sent w1 \<and> pickled w' = pickled w1"
    using assms Inr g
    by (auto simp: attempt_def Let_def get_headers_def uniform_def sleep_def
        split: if_splits option.splits list.splits sum.splits)
  have "length (sent w') = length (sent w) + 1 \<and>
        length (pickled w') = length (pickled w) + (if use_session self then 1 else 0)"
    using a fr(3,14) by simp
  with a s1 show ?thesis by metis
qed

lemma search_loop_counts:
  "search_loop enc config tries self w = (r, self', w') \<Longrightarrow>
     use_session self' = use_session self \<and>
     (\<exists>k. length (sent w') = length (sent w) + k \<and>
         length (pickled w') = length (pickled w) + (if use_session self then k else 0))"
proof (induction enc config tries self w rule: search_loop.induct)
  case (1 enc config tries self w)
  show ?case
  proof (cases "tries < max_retries self")
    case False
    with "1.prems" show ?thesis by simp
  next
    case True
    obtain x self2 w2 where att: "attempt enc self config w = (x, self2, w2)"
      by (metis prod_cases3)
    from attempt_counts [OF att] obtain k where k:
      "use_session self2 = use_session self"
      "length (sent w2) = length (sent w) + k"
      "length (pickled w2) = length (pickled w) + (if use_session self then k else 0)"
      by blast
    show ?thesis
    proof (cases x)
      case (Some res)
      with True att "1.prems" have "self' = self2" "w' = w2"
        by (simp_all add: search_loop_step)
      with k show ?thesis by blast
    next
      case None
      with True att "1.prems" have
        "search_loop enc config (tries + 1) self2 w2 = (r, self', w')"
        by (simp add: search_loop_step)
      from "1.IH" [OF True att [symmetric] None refl this]
      obtain j where
        "use_session self' = use_session self2"
        "length (sent w') = length (sent w2) + j"
        "length (pickled w') = length (pickled w2) + (if use_session self2 then j else 0)"
        by blast
      with k have "use_session self' = use_session self \<and>
        length (sent w') = length (sent w) + (k + j) \<and>
        length (pickled w') = length (pickled w) + (if use_session self then k + j else 0)"
        by simp
      then show ?thesis by blast
    qed
  qed
qed

lemma load_session_use:
  "\<forall>h p. new_session w h p = None \<Longrightarrow> load_session us td h px w = Inr s \<Longrightarrow> us"
  by (cases us) (auto simp: load_session_def)

lemma init_use_session:
  assumes "\<forall>h p. new_session w h p = None"
    and "init us bc hs px wr mr lg td w = (Inr self, w')"
  shows "use_session self"
proof -
  have n: "\<forall>h p. new_session (snd (get_headers w)) h p = None"
    using assms(1) by (simp add: get_headers_def)
  from assms(2) obtain h w1 s where l: "load_session us td h px w1 = Inr s"
    and w1: "w1 = w \<or> w1 = snd (get_headers w)" and u: "use_session self = us"
    by (cases hs)
      (auto simp: init_def split: if_splits sum.splits prod.splits)
  from w1 assms(1) n have "\<forall>h p. new_session w1 h p = None" by auto
  from load_session_use [OF this l] u show ?thesis by simp
qed

lemma session_saved:
  assumes "use_session self"
  shows "get self base q w = (res, self1, w1) \<Longrightarrow>
           sent w1 = sent w @ [base @ ''?'' @ q] \<and>
           pickled w1 = pickled w @ [(session_file_path (tmp_dir self), session self1)] \<and>
           read_pickle w1 (session_file_path (tmp_dir self)) = Some (session self1)"
    and "search_list enc self config w = (r, self', w') \<Longrightarrow>
           use_session self' \<and>
           (\<exists>k. length (sent w') = length (sent w) + k \<and>
                length (pickled w') = length (pickled w) + k)"
proof -
  assume g: "get self base q w = (res, self1, w1)"
  have p: "pickled w1 = pickled w @ [(session_file_path (tmp_dir self), session self1)]"
    using get_frame(14) [OF g] assms by simp
  then show "sent w1 = sent w @ [base @ ''?'' @ q] \<and>
           pickled w1 = pickled w @ [(session_file_path (tmp_dir self), session self1)] \<and>
           read_pickle w1 (session_file_path (tmp_dir self)) = Some (session self1)"
    using get_frame(3) [OF g] by (simp add: read_pickle_def)
next
  assume "search_list enc self config w = (r, self', w')"
  from search_loop_counts [OF this [unfolded search_list_def]] assms
  show "use_session self' \<and>
        (\<exists>k. length (sent w') = length (sent w) + k \<and> length (pickled w') = length (pickled w) + k)"
    by simp
qed

text \<open>
  C7. The library's \<open>requests.Session\<close> declares no parameters, so the call
  \<open>requests.Session(headers=..., proxies=...)\<close> of \<open>_load_session\<close> fails, and the
  constructor returns an object only when sessions are used and the session file is
  there. On every object the constructor returns, \<open>_get\<close> dumps the session, in the state
  the request left it in, to the session file before it returns the response, whatever
  the response is; over a call of \<open>search_list\<close>, however it ends, as many sessions were
  dumped as requests were sent, and the object it leaves still uses sessions;
  \<open>listing_details\<close> sends no request and dumps nothing.
\<close>

theorem get_saves_session:
  assumes "\<forall>h p. new_session w0 h p = None"
    and "init us bc hs px wr mr lg td w0 = (Inr self, w0')"
  shows "use_session self \<and>
         (\<forall>base q w res self1 w1. get self base q w = (res, self1, w1) \<longrightarrow>
            sent w1 = sent w @ [base @ ''?'' @ q] \<and>
            pickled w1 = pickled w @ [(session_file_path (tmp_dir self), session self1)] \<and>
            read_pickle w1 (session_file_path (tmp_dir self)) = Some (session self1)) \<and>
         (\<forall>enc config w r self' w'. search_list enc self config w = (r, self', w') \<longrightarrow>
            use_session self' \<and>
            (\<exists>k. length (sent w') = length (sent w) + k \<and>
                 length (pickled w') = length (pickled w) + k)) \<and>
         (\<forall>enc config w. sent (snd (snd (listing_details enc self config w))) = sent w \<and>
            pickled (snd (snd (listing_details enc self config w))) = pickled w)"
proof -
  have u: "use_session self"
    by (rule init_use_session [OF assms])
  show ?thesis
  proof (intro conjI allI impI)
    show "use_session self" by (rule u)
  next
    fix base q w res self1 w1
    assume g: "get self base q w = (res, self1, w1)"
    from session_saved(1) [OF u g]
    show "sent w1 = sent w @ [base @ ''?'' @ q]"
      and "pickled w1 = pickled w @ [(session_file_path (tmp_dir self), session self1)]"
      and "read_pickle w1 (session_file_path (tmp_dir self)) = Some (session self1)"
      by simp_all
  next
    fix enc :: "'a \<Rightarrow> string" and config w r self' w'
    assume s: "search_list enc self config w = (r, self', w')"
    from session_saved(2) [OF u s]
    show "use_session self'"
      and "\<exists>k. length (sent w') = length (sent w) + k \<and> length (pickled w') = length (pickled w) + k"
      by simp_all
  next
    fix enc :: "'b \<Rightarrow> string" and config w
    show "sent (snd (snd (listing_details enc self config w))) = sent w"
      and "pickled (snd (snd (listing_details enc self config w))) = pickled w"
      by (simp_all add: listing_details_def BASE_URL_def)
  qed
qed

lemma stored_counts:
  "length (sent (snd (snd (search_list example_enc
      ((example_api True [2, 5] 2)\<lparr>headers := [(''User-Agent'', ''Mozilla/5.0'')]\<rparr>) ''make=bmw''
      ((stored_world plain_page)\<lparr>headers_generated := 1\<rparr>))))) = 2"
  "length (pickled (snd (snd (search_list example_enc
      ((example_api True [2, 5] 2)\<lparr>headers := [(''User-Agent'', ''Mozilla/5.0'')]\<rparr>) ''make=bmw''
      ((stored_world plain_page)\<lparr>headers_generated := 1\<rparr>))))) = 3"
  by (simp_all add: search_list_def attempt_def LIST_URL_def LANG_MAP_def example_api_def get_def
        stored_world_def example_world_def save_session_def plain_page_def find_attrs_def
        find_string_def get_headers_def uniform_def sleep_def example_enc_def Let_def)

theorem get_saves_session_witness:
  "(\<forall>h p. new_session (stored_world plain_page) h p = None) \<and>
   init True False None None [2, 5] 2 ''fr'' ''.'' (stored_world plain_page)
     = (Inr ((example_api True [2, 5] 2)\<lparr>headers := [(''User-Agent'', ''Mozilla/5.0'')]\<rparr>),
        (stored_world plain_page)\<lparr>headers_generated := 1\<rparr>) \<and>
   use_session ((example_api True [2, 5] 2)\<lparr>headers := [(''User-Agent'', ''Mozilla/5.0'')]\<rparr>) \<and>
   length (pickled (stored_world plain_page)) = 1 \<and>
   length (sent (snd (snd (search_list example_enc
      ((example_api True [2, 5] 2)\<lparr>headers := [(''User-Agent'', ''Mozilla/5.0'')]\<rparr>) ''make=bmw''
      ((stored_world plain_page)\<lparr>headers_generated := 1\<rparr>))))) = 2 \<and>
   length (pickled (snd (snd (search_list example_enc
      ((example_api True [2, 5] 2)\<lparr>headers := [(''User-Agent'', ''Mozilla/5.0'')]\<rparr>) ''make=bmw''
      ((stored_world plain_page)\<lparr>headers_generated := 1\<rparr>))))) = 3"
proof -
  have n: "\<forall>h p. new_session (stored_world plain_page) h p = None"
    by (simp add: stored_world_def)
  have i: "init True False None None [2, 5] 2 ''fr'' ''.'' (stored_world plain_page)
     = (Inr ((example_api True [2, 5] 2)\<lparr>headers := [(''User-Agent'', ''Mozilla/5.0'')]\<rparr>),
        (stored_world plain_page)\<lparr>headers_generated := 1\<rparr>)"
    by (rule init_stored) simp_all
  have l: "length (pickled (stored_world plain_page)) = 1"
    by (simp add: stored_world_def)
  from get_saves_session [OF n i]
  have "use_session ((example_api True [2, 5] 2)\<lparr>headers := [(''User-Agent'', ''Mozilla/5.0'')]\<rparr>)"
    by blast
  with n i l show ?thesis
    by (simp only: stored_counts simp_thms)
qed

subsection \<open>\<open>listing_details\<close>\<close>

text \<open>
  C8. The claim says that \<open>listing_details\<close> sends the request and returns. The code
  reads \<open>self._BASE_URL\<close>, which the class does not define (the URL it defines is
  \<open>_LIST_URL\<close>): for every object, query and world the call raises \<open>AttributeError\<close>
  before any request is sent, and leaves the object and the world as they were.
\<close>

theorem listing_details_raises:
  "listing_details enc self config w = (Inl (AttributeError ''_BASE_URL''), self, w)"
  by (simp add: listing_details_def BASE_URL_def)

end
